theory Spec2Isabelle
  imports Complex_Main "HOL-Library.Sublist"
begin

section \<open>ATS resume scorer: numeric model\<close>

text \<open>
  The scorer of \<^verbatim>\<open>app/services/scorer.py\<close> computes with Python floats whose values
  are short decimals (\<^verbatim>\<open>0.98\<close>, \<^verbatim>\<open>0.35\<close>, \<^verbatim>\<open>10.5\<close>, ...). The model reads every
  float literal as the decimal it denotes and computes in exact rational arithmetic
  (\<^typ>\<open>rat\<close>); Python integers are \<^typ>\<open>int\<close>. Binary rounding error of the
  floating-point unit is outside this model.

  Python's \<^verbatim>\<open>round(x, ndigits)\<close> rounds to the nearest multiple of \<open>10\<^sup>-\<^sup>n\<close> and
  resolves a tie towards the even neighbour.
\<close>

definition round_half_even :: "rat \<Rightarrow> int" where
  "round_half_even y =
     (let f = \<lfloor>y\<rfloor>; d = y - of_int f
      in if d < 1 / 2 then f
         else if 1 / 2 < d then f + 1
         else if even f then f else f + 1)"

definition py_round :: "rat \<Rightarrow> nat \<Rightarrow> rat" where
  "py_round x ndigits = of_int (round_half_even (x * 10 ^ ndigits)) / 10 ^ ndigits"

subsection \<open>Skills scorer\<close>

text \<open>
  \<^verbatim>\<open>_score_skills(skill_count, skills_list)\<close>, scorer.py lines 420-441. The second
  argument is not read by the source.
\<close>

definition score_skills :: "int \<Rightarrow> string list \<Rightarrow> rat" where
  "score_skills skill_count skills_list =
     (if skill_count = 0 then 0
      else if skill_count \<le> 5 then py_round (2 + of_int skill_count * (2 / 10)) 1
      else if skill_count \<le> 15 then py_round (3 + of_int (skill_count - 5) * (4 / 10)) 1
      else if skill_count < 25 then py_round (7 + of_int (skill_count - 15) * (3 / 10)) 1
      else 10)"

subsection \<open>Score normalizer\<close>

text \<open>
  \<^verbatim>\<open>normalize_score(heuristics_score, relevance)\<close>, scorer.py lines 578-654. The
  returned dictionary has the three keys of the record below; \<^verbatim>\<open>relevance\<close> is
  \<^verbatim>\<open>Optional[float]\<close>.
\<close>

record norm_breakdown =
  heuristics :: rat
  relevance :: rat
  scalingFactor :: rat

definition SCALE_WITH_JD :: rat where
  "SCALE_WITH_JD = 98 / 100"

definition SCALE_WITHOUT_JD :: rat where
  "SCALE_WITHOUT_JD = 98 / 100"

definition relevance_component :: "rat \<Rightarrow> rat" where
  "relevance_component r =
     (if r < 3 / 10 then r * 35
      else if r < 6 / 10 then 105 / 10 + (r - 3 / 10) * 45
      else 24 + (r - 6 / 10) * 65)"

definition normalize_score :: "rat \<Rightarrow> rat option \<Rightarrow> rat \<times> norm_breakdown" where
  "normalize_score heuristics_score rel =
     (if rel = None \<or> rel = Some 0 then
        (let raw_total = heuristics_score * 2;
             total = raw_total * SCALE_WITHOUT_JD
         in (py_round (max 0 (min 100 total)) 2,
             \<lparr>heuristics = py_round (heuristics_score * 2) 2,
              relevance = 0,
              scalingFactor = SCALE_WITHOUT_JD\<rparr>))
      else
        (let r = the rel;
             raw_total = heuristics_score + relevance_component r;
             total = raw_total * SCALE_WITH_JD
         in (py_round (max 0 (min 100 total)) 2,
             \<lparr>heuristics = py_round heuristics_score 2,
              relevance = py_round (relevance_component r) 2,
              scalingFactor = SCALE_WITH_JD\<rparr>)))"

section \<open>Text model\<close>

text \<open>
  A Python \<^verbatim>\<open>str\<close> is modelled as a \<^typ>\<open>string\<close>: a list of code points below 256
  (the Latin-1 range of Unicode). The character classes below are those of Python on
  that range: \<^verbatim>\<open>str.lower\<close>, \<^verbatim>\<open>str.isspace\<close> (which is also what \<^verbatim>\<open>\s\<close>,
  \<^verbatim>\<open>strip()\<close> and \<^verbatim>\<open>split()\<close> use) and \<^verbatim>\<open>\d\<close>.
\<close>

definition lower_chr :: "char \<Rightarrow> char" where
  "lower_chr c =
     (let n = (of_char c :: nat)
      in if (65 \<le> n \<and> n \<le> 90) \<or> (192 \<le> n \<and> n \<le> 222 \<and> n \<noteq> 215)
         then char_of (n + 32) else c)"

definition lower :: "string \<Rightarrow> string" where
  "lower s = map lower_chr s"

definition is_space :: "char \<Rightarrow> bool" where
  "is_space c =
     (let n = (of_char c :: nat)
      in (9 \<le> n \<and> n \<le> 13) \<or> (28 \<le> n \<and> n \<le> 32) \<or> n = 133 \<or> n = 160)"

definition is_digit :: "char \<Rightarrow> bool" where
  "is_digit c = (let n = (of_char c :: nat) in 48 \<le> n \<and> n \<le> 57)"

definition is_az :: "char \<Rightarrow> bool" where
  "is_az c = (let n = (of_char c :: nat) in 97 \<le> n \<and> n \<le> 122)"

text \<open>\<^verbatim>\<open>sub in text\<close>: \<open>sub\<close> occurs in \<open>text\<close> as a contiguous substring.\<close>

fun is_in :: "string \<Rightarrow> string \<Rightarrow> bool" where
  "is_in sub [] = (sub = [])"
| "is_in sub (c # cs) = (prefix sub (c # cs) \<or> is_in sub cs)"

text \<open>\<^verbatim>\<open>any(k in text for k in keys)\<close> and \<^verbatim>\<open>sum(1 for k in keys if k in text)\<close>.\<close>

definition any_in :: "string list \<Rightarrow> string \<Rightarrow> bool" where
  "any_in keys txt = list_ex (\<lambda>k. is_in k txt) keys"

definition count_in :: "string list \<Rightarrow> string \<Rightarrow> nat" where
  "count_in keys txt = length (filter (\<lambda>k. is_in k txt) keys)"

text \<open>
  \<^verbatim>\<open>text.count(sub)\<close> for a non-empty \<open>sub\<close>: occurrences counted from the left
  without overlap. \<open>skip\<close> is the number of characters of the last occurrence still to
  be passed over.
\<close>

fun count_from :: "nat \<Rightarrow> string \<Rightarrow> string \<Rightarrow> nat" where
  "count_from skip sub [] = 0"
| "count_from skip sub (c # cs) =
     (if 0 < skip then count_from (skip - 1) sub cs
      else if prefix sub (c # cs) then Suc (count_from (length sub - 1) sub cs)
      else count_from 0 sub cs)"

definition count_sub :: "string \<Rightarrow> string \<Rightarrow> nat" where
  "count_sub txt sub = count_from 0 sub txt"

text \<open>\<^verbatim>\<open>sep.join(xs)\<close>.\<close>

fun join :: "string \<Rightarrow> string list \<Rightarrow> string" where
  "join sep [] = []"
| "join sep [x] = x"
| "join sep (x # y # ys) = x @ sep @ join sep (y # ys)"

text \<open>\<^verbatim>\<open>str(n)\<close> for a non-negative integer.\<close>

fun str_of_nat :: "nat \<Rightarrow> string" where
  "str_of_nat n =
     (if n < 10 then [char_of (48 + n)]
      else str_of_nat (n div 10) @ [char_of (48 + n mod 10)])"

subsection \<open>Regular expressions\<close>

text \<open>
  The fragment of \<^verbatim>\<open>re\<close> the scorer uses: literals, character classes, greedy
  repetition of a class (\<^verbatim>\<open>\d+\<close>, \<^verbatim>\<open>\d*\<close>, \<^verbatim>\<open>\s*\<close>), greedy optional parts and
  ordered alternation. \<open>rmatch r s\<close> lists, in the order in which the backtracking
  matcher tries them, the remainders of \<open>s\<close> after each way of matching \<open>r\<close> at the
  start of \<open>s\<close>; the head of the list is the match \<^verbatim>\<open>re\<close> reports.
\<close>

datatype regex =
    Lit string
  | Cls "char \<Rightarrow> bool"
  | Rep "char \<Rightarrow> bool" nat
  | Opt regex
  | Seq regex regex
  | Alt regex regex

fun rmatch :: "regex \<Rightarrow> string \<Rightarrow> string list" where
  "rmatch (Lit w) s = (if prefix w s then [drop (length w) s] else [])"
| "rmatch (Cls P) s = (case s of [] \<Rightarrow> [] | c # cs \<Rightarrow> if P c then [cs] else [])"
| "rmatch (Rep P n) s =
     (let k = length (takeWhile P s) in map (\<lambda>i. drop i s) (rev [n..<Suc k]))"
| "rmatch (Opt r) s = rmatch r s @ [s]"
| "rmatch (Seq r1 r2) s = concat (map (rmatch r2) (rmatch r1 s))"
| "rmatch (Alt r1 r2) s = rmatch r1 s @ rmatch r2 s"

text \<open>
  A pattern is given as a group \<open>g\<close> followed by a tail \<open>t\<close>. \<open>first_match\<close> returns
  the lengths of the group and of the whole match at the start of \<open>s\<close>.
\<close>

definition first_match :: "regex \<Rightarrow> regex \<Rightarrow> string \<Rightarrow> (nat \<times> nat) option" where
  "first_match g t s =
     (case concat (map (\<lambda>a. map (\<lambda>b. (a, b)) (rmatch t a)) (rmatch g s)) of
        [] \<Rightarrow> None
      | (a, b) # _ \<Rightarrow> Some (length s - length a, length s - length b))"

text \<open>
  \<^verbatim>\<open>re.findall\<close>: scan from the left, report the text of the group of each match and
  resume after the match. No pattern of the scorer matches the empty string.
\<close>

fun findall_from :: "nat \<Rightarrow> regex \<Rightarrow> regex \<Rightarrow> string \<Rightarrow> string list" where
  "findall_from skip g t [] = []"
| "findall_from skip g t (c # cs) =
     (if 0 < skip then findall_from (skip - 1) g t cs
      else case first_match g t (c # cs) of
             None \<Rightarrow> findall_from 0 g t cs
           | Some (n, m) \<Rightarrow> take n (c # cs) # findall_from (m - 1) g t cs)"

definition findall :: "regex \<Rightarrow> regex \<Rightarrow> string \<Rightarrow> string list" where
  "findall g t s = findall_from 0 g t s"

abbreviation Eps :: regex where
  "Eps \<equiv> Lit []"

text \<open>\<^verbatim>\<open>float(m)\<close> for a match \<open>m\<close> of \<^verbatim>\<open>\d+\.?\d*\<close>.\<close>

definition digits_val :: "string \<Rightarrow> nat" where
  "digits_val s = foldl (\<lambda>a c. 10 * a + (of_char c - 48)) 0 s"

definition float_of :: "string \<Rightarrow> rat" where
  "float_of m =
     (let ip = takeWhile is_digit m; fp = drop (Suc (length ip)) m
      in of_nat (digits_val ip) + of_nat (digits_val fp) / 10 ^ length fp)"

section \<open>Section scorers\<close>

subsection \<open>Education\<close>

text \<open>
  \<^verbatim>\<open>_score_education(education_text, full_text)\<close>, scorer.py lines 284-325. The
  caller passes the lower-cased resume text as \<open>full_text\<close> and the empty string for
  an absent section.
\<close>

definition relevant_fields :: "string list" where
  "relevant_fields =
     [''computer science'', ''software'', ''engineering'', ''information technology'',
      ''data science'', ''artificial intelligence'', ''machine learning'', ''mathematics'',
      ''electrical'', ''electronics'', ''cs'', ''cse'', ''it'', ''ece'']"

definition top_schools :: "string list" where
  "top_schools =
     [''mit'', ''stanford'', ''iit'', ''nit'', ''iiit'', ''bits'', ''harvard'', ''berkeley'',
      ''carnegie mellon'', ''georgia tech'', ''caltech'', ''oxford'', ''cambridge'']"

definition degree_bonus :: "string \<Rightarrow> rat" where
  "degree_bonus txt =
     (if any_in [''ph.d'', ''phd'', ''doctorate'', ''doctoral''] txt then 5
      else if any_in [''master'', ''m.s.'', ''m.sc'', ''mba'', ''m.tech'', ''mtech''] txt then 4
      else if any_in [''bachelor'', ''b.s.'', ''b.sc'', ''b.tech'', ''btech'', ''b.e.'',
                      ''undergraduate''] txt then 3
      else if any_in [''diploma'', ''associate'', ''certificate''] txt then 15 / 10
      else 0)"

definition score_education :: "string \<Rightarrow> string \<Rightarrow> rat" where
  "score_education education_text full_text =
     (if education_text = [] \<and> \<not> is_in ''education'' full_text then 0
      else
        let txt = lower (education_text @ '' '' @ full_text);
            score = 2 + degree_bonus txt;
            score = (if any_in relevant_fields txt then score + 15 / 10 else score);
            score = (if any_in top_schools txt then score + 1 else score)
        in min 10 score)"

subsection \<open>Experience\<close>

text \<open>
  \<^verbatim>\<open>_score_experience(experience_text, full_text)\<close>, scorer.py lines 328-417. The
  regular expressions of the source, in order:
  \<^verbatim>\<open>(\d+\.?\d*)\s*(?:years?|yrs?)\<close>, \<^verbatim>\<open>(\d+\.?\d*)\s*(?:months?|mos?)\<close>,
  \<^verbatim>\<open>20[12]\d\<close> and
  \<^verbatim>\<open>\d+%|\$\d+[kmb]?|\d+\s*(?:users|customers|clients|projects|applications|team|engineers|developers)\<close>.
\<close>

definition number_group :: regex where
  "number_group = Seq (Rep is_digit 1) (Seq (Opt (Lit ''.'')) (Rep is_digit 0))"

definition years_tail :: regex where
  "years_tail =
     Seq (Rep is_space 0)
       (Alt (Seq (Lit ''year'') (Opt (Lit ''s''))) (Seq (Lit ''yr'') (Opt (Lit ''s''))))"

definition months_tail :: regex where
  "months_tail =
     Seq (Rep is_space 0)
       (Alt (Seq (Lit ''month'') (Opt (Lit ''s''))) (Seq (Lit ''mo'') (Opt (Lit ''s''))))"

definition year_pattern :: regex where
  "year_pattern =
     Seq (Lit ''20'') (Seq (Cls (\<lambda>c. c = CHR ''1'' \<or> c = CHR ''2'')) (Cls is_digit))"

definition alt_lits :: "string list \<Rightarrow> regex" where
  "alt_lits ws = foldr (\<lambda>w r. Alt (Lit w) r) (butlast ws) (Lit (last ws))"

definition metrics_pattern :: regex where
  "metrics_pattern =
     Alt (Seq (Rep is_digit 1) (Lit ''%''))
       (Alt (Seq (Lit ''$'')
               (Seq (Rep is_digit 1)
                  (Opt (Cls (\<lambda>c. c = CHR ''k'' \<or> c = CHR ''m'' \<or> c = CHR ''b'')))))
          (Seq (Rep is_digit 1)
             (Seq (Rep is_space 0)
                (alt_lits [''users'', ''customers'', ''clients'', ''projects'',
                           ''applications'', ''team'', ''engineers'', ''developers'']))))"

definition action_verbs :: "string list" where
  "action_verbs =
     [''led'', ''developed'', ''implemented'', ''designed'', ''architected'', ''built'',
      ''managed'', ''created'', ''optimized'', ''improved'', ''reduced'', ''increased'',
      ''delivered'', ''launched'', ''mentored'', ''scaled'', ''automated'', ''integrated'',
      ''deployed'', ''spearheaded'', ''established'', ''transformed'', ''pioneered'']"

definition seniority :: "string list" where
  "seniority =
     [''senior'', ''lead'', ''principal'', ''staff'', ''architect'', ''manager'',
      ''director'', ''head'', ''vp'', ''cto'', ''ceo'']"

definition top_companies :: "string list" where
  "top_companies =
     [''google'', ''amazon'', ''microsoft'', ''meta'', ''facebook'', ''apple'', ''netflix'',
      ''uber'', ''airbnb'', ''stripe'', ''linkedin'', ''twitter'', ''salesforce'', ''adobe'']"

text \<open>The sum of the durations found, in months (the loop over both patterns).\<close>

definition total_months :: "string \<Rightarrow> rat" where
  "total_months txt =
     sum_list (map (\<lambda>m. float_of m * 12) (findall number_group years_tail txt))
     + sum_list (map float_of (findall number_group months_tail txt))"

text \<open>
  The duration tiers; \<open>None\<close> is \<^verbatim>\<open>found_duration = False\<close>.
\<close>

definition duration_points :: "rat \<Rightarrow> rat option" where
  "duration_points months =
     (if 6 \<le> months then Some 4
      else if 3 \<le> months then Some 3
      else if 1 \<le> months then Some 2
      else None)"

definition date_range_points :: "string \<Rightarrow> rat" where
  "date_range_points txt =
     (let years = findall year_pattern Eps txt;
          distinct_years = length (remdups years)
      in if 2 \<le> distinct_years then 4
         else if distinct_years = 1 \<and> (is_in ''present'' txt \<or> is_in ''current'' txt) then 4
         else if distinct_years = 1 then 25 / 10
         else if 200 < length txt then 1
         else 0)"

definition score_experience :: "string \<Rightarrow> string \<Rightarrow> rat" where
  "score_experience experience_text full_text =
     (if experience_text = [] \<and> \<not> is_in ''experience'' full_text then 0
      else
        let txt = lower (experience_text @ '' '' @ full_text);
            score = (case duration_points (total_months txt) of
                       Some p \<Rightarrow> p
                     | None \<Rightarrow> date_range_points txt);
            action_count = count_in action_verbs txt;
            score = score + min (25 / 10) (of_nat action_count * (35 / 100));
            metrics = findall metrics_pattern Eps txt;
            score = score + min 2 (of_nat (length metrics) * (4 / 10));
            seniority_count = count_in seniority txt;
            score = score + min 1 (of_nat seniority_count * (5 / 10));
            score = (if any_in top_companies txt then score + 5 / 10 else score)
        in min 10 (py_round score 1))"

subsection \<open>Projects\<close>

text \<open>
  \<^verbatim>\<open>_score_projects(projects_text, full_text)\<close>, scorer.py lines 444-491, with the
  pattern \<^verbatim>\<open>\d+\s*(?:users|downloads|stars|forks|views)|deployed|production|live\<close>.
\<close>

definition project_indicators :: "string list" where
  "project_indicators =
     [''github.com'', ''project:'', ''built a'', ''created a'', ''developed a'', ''hackathon'']"

definition tech_indicators :: "string list" where
  "tech_indicators =
     [''react'', ''node'', ''python'', ''javascript'', ''typescript'', ''java'', ''golang'',
      ''rust'', ''aws'', ''docker'', ''kubernetes'', ''mongodb'', ''postgresql'', ''api'',
      ''machine learning'', ''tensorflow'', ''pytorch'', ''database'', ''microservices'']"

definition impact_pattern :: regex where
  "impact_pattern =
     Alt (Seq (Rep is_digit 1)
            (Seq (Rep is_space 0)
               (alt_lits [''users'', ''downloads'', ''stars'', ''forks'', ''views''])))
       (alt_lits [''deployed'', ''production'', ''live''])"

definition links :: "string list" where
  "links =
     [''github.com'', ''gitlab.com'', ''bitbucket'', ''herokuapp'', ''vercel'', ''netlify'',
      ''http://'', ''https://'']"

definition projects_points :: "string \<Rightarrow> rat" where
  "projects_points txt =
     (let text_lower = lower txt;
          score = 2;
          tech_count = count_in tech_indicators text_lower;
          score = score + min 3 (of_nat tech_count * (5 / 10));
          impact_patterns = findall impact_pattern Eps text_lower;
          score = score + min 2 (of_nat (length impact_patterns) * (5 / 10));
          link_count = count_in links text_lower;
          score = score + min 2 (of_nat link_count * (7 / 10));
          project_words = count_sub text_lower ''project'';
          score = (if 3 \<le> project_words then score + 1
                   else if 2 \<le> project_words then score + 5 / 10
                   else score)
      in min 10 score)"

definition score_projects :: "string \<Rightarrow> string \<Rightarrow> rat" where
  "score_projects projects_text full_text =
     (if projects_text = [] then
        (if \<not> any_in project_indicators full_text then 0
         else projects_points full_text)
      else projects_points (projects_text @ '' '' @ full_text))"

subsection \<open>Contact\<close>

text \<open>
  \<^verbatim>\<open>_score_contact(contact, full_text)\<close>, scorer.py lines 494-528. The dictionary
  built by \<^verbatim>\<open>extract_contact_info\<close> has the keys \<^verbatim>\<open>email\<close> and \<^verbatim>\<open>phone\<close>, each
  a string or \<^verbatim>\<open>None\<close>; \<open>truthy\<close> is Python's truth value of such an entry.
\<close>

record contact_info =
  email :: "string option"
  phone :: "string option"

definition truthy :: "string option \<Rightarrow> bool" where
  "truthy v = (case v of None \<Rightarrow> False | Some s \<Rightarrow> s \<noteq> [])"

definition portfolio_indicators :: "string list" where
  "portfolio_indicators =
     [''portfolio'', ''website'', ''.com/'', ''.io/'', ''vercel.app'', ''netlify.app'']"

definition score_contact :: "contact_info \<Rightarrow> string \<Rightarrow> rat" where
  "score_contact c full_text =
     (let score = 0;
          score = (if truthy (email c) then score + 3 else score);
          score = (if truthy (phone c) then score + 2 else score);
          score = (if is_in ''linkedin.com'' full_text \<or> is_in ''linkedin'' full_text
                   then score + 2 else score);
          score = (if is_in ''github.com'' full_text \<or> is_in ''github'' full_text
                   then score + 2 else score);
          score = (if any_in portfolio_indicators full_text then score + 1 else score)
      in min 10 score)"

section \<open>Heuristic aggregator\<close>

text \<open>
  \<^verbatim>\<open>compute_heuristics(text, parsed_sections, parsing_errors)\<close>, scorer.py lines
  157-281. \<open>parsed_sections\<close> is a dictionary whose values may be \<^verbatim>\<open>None\<close>;
  \<^verbatim>\<open>parsed_sections.get(key, '') or ''\<close> reads a missing key, \<^verbatim>\<open>None\<close> and the empty
  string alike.

  The source obtains the skill list and the contact dictionary from two collaborators,
  \<^verbatim>\<open>extract_skills_from_resume(text)\<close> and \<^verbatim>\<open>extract_contact_info(text)\<close>. The model
  takes their results as the arguments \<open>all_skills\<close> and \<open>contact_dict\<close>, so every
  statement below holds for whatever the two collaborators return.
\<close>

record heur_breakdown =
  education :: rat
  experience :: rat
  skills :: rat
  projects :: rat
  contact :: rat
  parsingPenalty :: rat

definition section_text :: "(string \<rightharpoonup> string option) \<Rightarrow> string \<Rightarrow> string" where
  "section_text parsed_sections key =
     (case parsed_sections key of Some (Some s) \<Rightarrow> s | _ \<Rightarrow> [])"

definition education_feedback :: "rat \<Rightarrow> string list" where
  "education_feedback edu_score =
     (if edu_score < 5 then
        (if edu_score = 0 then [''Missing or undetected Education section'']
         else [''Education section lacks detail - include degree, field, and institution''])
      else [])"

definition experience_feedback :: "rat \<Rightarrow> string list" where
  "experience_feedback exp_score =
     (if exp_score < 5 then
        (if exp_score = 0 then [''Missing or undetected Experience section'']
         else [''Experience lacks impact - add action verbs (led, developed, increased) and quantified results (40%, $1M, 10K users)''])
      else [])"

definition skills_feedback :: "rat \<Rightarrow> nat \<Rightarrow> string list" where
  "skills_feedback skills_score skill_count =
     (if skills_score < 5 then
        [''Only '' @ str_of_nat skill_count
           @ '' technical skills detected - add more relevant technologies (target: 20+)'']
      else [])"

definition projects_feedback :: "rat \<Rightarrow> string list" where
  "projects_feedback proj_score =
     (if proj_score < 5 then
        (if proj_score = 0
         then [''Missing Projects section - showcase your work with technical details'']
         else [''Projects need more detail - include tech stack, your role, and impact''])
      else [])"

definition contact_feedback :: "rat \<Rightarrow> string list" where
  "contact_feedback contact_score =
     (if contact_score < 5
      then [''Contact info incomplete - add email, phone, and LinkedIn/GitHub'']
      else [])"

text \<open>The five sub-scores, in the order of the source.\<close>

definition section_scores ::
  "string \<Rightarrow> (string \<rightharpoonup> string option) \<Rightarrow> string list \<Rightarrow> contact_info
     \<Rightarrow> rat \<times> rat \<times> rat \<times> rat \<times> rat" where
  "section_scores txt parsed_sections all_skills contact_dict =
     (let text_lower = lower txt
      in (score_education (section_text parsed_sections ''education'') text_lower,
          score_experience (section_text parsed_sections ''experience'') text_lower,
          score_skills (int (length all_skills)) all_skills,
          score_projects (section_text parsed_sections ''projects'') text_lower,
          score_contact contact_dict text_lower))"

definition compute_heuristics ::
  "string \<Rightarrow> (string \<rightharpoonup> string option) \<Rightarrow> string list \<Rightarrow> string list \<Rightarrow> contact_info
     \<Rightarrow> rat \<times> string list \<times> heur_breakdown" where
  "compute_heuristics txt parsed_sections parsing_errors all_skills contact_dict =
     (let (edu_score, exp_score, skills_score, proj_score, contact_score) =
            section_scores txt parsed_sections all_skills contact_dict;
          score = 0 + edu_score + exp_score + skills_score + proj_score + contact_score;
          feedback = education_feedback edu_score @ experience_feedback exp_score
                     @ skills_feedback skills_score (length all_skills)
                     @ projects_feedback proj_score @ contact_feedback contact_score;
          penalty = min 10 (int (length parsing_errors) * 5);
          (score, feedback, parsing_penalty) =
            (if parsing_errors \<noteq> [] then
               (score - of_int penalty,
                feedback @ [''Parsing issues detected: '' @ join ''; '' (take 3 parsing_errors)],
                - of_int penalty)
             else (score, feedback, 0))
      in (max 0 (min 50 score), feedback,
          \<lparr>education = py_round edu_score 1,
           experience = py_round exp_score 1,
           skills = py_round skills_score 1,
           projects = py_round proj_score 1,
           contact = py_round contact_score 1,
           parsingPenalty = parsing_penalty\<rparr>))"

text \<open>The sum of the five sub-scores, before the penalty and the clamp.\<close>

definition heuristic_sum ::
  "string \<Rightarrow> (string \<rightharpoonup> string option) \<Rightarrow> string list \<Rightarrow> contact_info \<Rightarrow> rat" where
  "heuristic_sum txt parsed_sections all_skills contact_dict =
     (case section_scores txt parsed_sections all_skills contact_dict of
        (edu_score, exp_score, skills_score, proj_score, contact_score) \<Rightarrow>
          edu_score + exp_score + skills_score + proj_score + contact_score)"

section \<open>Text cleaning\<close>

text \<open>
  \<^verbatim>\<open>clean_text(text, stop_words)\<close>, text_cleaner.py lines 18-55.
  \<open>collapse_from\<close> is \<^verbatim>\<open>re.sub(r'\s+', ' ', text)\<close>: every maximal run of white space
  becomes one blank; its flag says that the previous character was white space.
  \<open>split_from\<close> is \<^verbatim>\<open>text.split()\<close>, with the current word kept reversed in \<open>cur\<close>.
\<close>

fun collapse_from :: "bool \<Rightarrow> string \<Rightarrow> string" where
  "collapse_from in_ws [] = []"
| "collapse_from in_ws (c # cs) =
     (if is_space c
      then (if in_ws then collapse_from True cs else CHR '' '' # collapse_from True cs)
      else c # collapse_from False cs)"

definition collapse_ws :: "string \<Rightarrow> string" where
  "collapse_ws s = collapse_from False s"

text \<open>\<^verbatim>\<open>strip()\<close> removes leading white space (\<open>lstrip\<close>) and trailing white space (\<open>rstrip\<close>).\<close>

definition lstrip :: "string \<Rightarrow> string" where
  "lstrip s = dropWhile is_space s"

definition rstrip :: "string \<Rightarrow> string" where
  "rstrip s = rev (dropWhile is_space (rev s))"

definition strip :: "string \<Rightarrow> string" where
  "strip s = rstrip (lstrip s)"

fun split_from :: "string \<Rightarrow> string \<Rightarrow> string list" where
  "split_from cur [] = (if cur = [] then [] else [rev cur])"
| "split_from cur (c # cs) =
     (if is_space c
      then (if cur = [] then split_from [] cs else rev cur # split_from [] cs)
      else split_from (c # cur) cs)"

definition split :: "string \<Rightarrow> string list" where
  "split s = split_from [] s"

definition keep_letters :: "string \<Rightarrow> string" where
  "keep_letters s = map (\<lambda>c. if is_az c \<or> is_space c then c else CHR '' '') s"

definition has_stop_words :: "string set option \<Rightarrow> bool" where
  "has_stop_words stop_words = (case stop_words of None \<Rightarrow> False | Some S \<Rightarrow> S \<noteq> {})"

definition clean_text :: "string \<Rightarrow> string set option \<Rightarrow> string" where
  "clean_text txt stop_words =
     (if txt = [] then []
      else
        let t = lower txt;
            t = keep_letters t;
            t = strip (collapse_ws t)
        in if has_stop_words stop_words
           then join '' '' (filter (\<lambda>word. word \<notin> the stop_words) (split t))
           else t)"

section \<open>Properties of rounding\<close>

lemma round_half_even_of_int: "round_half_even (of_int k) = k"
  by (simp add: round_half_even_def)

lemma round_half_even_bounds:
  "\<lfloor>y\<rfloor> \<le> round_half_even y \<and> round_half_even y \<le> \<lfloor>y\<rfloor> + 1"
  by (simp add: round_half_even_def Let_def)

lemma round_half_even_mono:
  assumes "x \<le> y"
  shows "round_half_even x \<le> round_half_even y"
proof (cases "\<lfloor>x\<rfloor> = \<lfloor>y\<rfloor>")
  case False
  from assms have "\<lfloor>x\<rfloor> \<le> \<lfloor>y\<rfloor>" by (rule floor_mono)
  with False have "\<lfloor>x\<rfloor> + 1 \<le> \<lfloor>y\<rfloor>" by simp
  moreover have "round_half_even x \<le> \<lfloor>x\<rfloor> + 1"
    using round_half_even_bounds [of x] by simp
  moreover have "\<lfloor>y\<rfloor> \<le> round_half_even y"
    using round_half_even_bounds [of y] by simp
  ultimately show ?thesis by linarith
next
  case True
  with assms have "x - of_int \<lfloor>x\<rfloor> \<le> y - of_int \<lfloor>y\<rfloor>" by simp
  with True show ?thesis
    by (auto simp: round_half_even_def Let_def)
qed

lemma py_round_mono: "x \<le> y \<Longrightarrow> py_round x n \<le> py_round y n"
proof -
  assume "x \<le> y"
  then have "x * 10 ^ n \<le> y * 10 ^ n"
    by (simp add: mult_right_mono)
  then have "round_half_even (x * 10 ^ n) \<le> round_half_even (y * 10 ^ n)"
    by (rule round_half_even_mono)
  then show ?thesis
    by (simp add: py_round_def divide_right_mono)
qed

lemma py_round_exact:
  assumes "x * 10 ^ n = of_int k"
  shows "py_round x n = x"
proof -
  have "py_round x n = of_int k / 10 ^ n"
    by (simp add: py_round_def assms round_half_even_of_int)
  also have "\<dots> = x"
    using assms [symmetric] by simp
  finally show ?thesis .
qed

lemma py_round_nonneg: "0 \<le> x \<Longrightarrow> 0 \<le> py_round x n"
proof -
  assume "0 \<le> x"
  then have "py_round 0 n \<le> py_round x n" by (rule py_round_mono)
  moreover have "py_round 0 n = 0"
    by (rule py_round_exact [where k = 0]) simp
  ultimately show ?thesis by simp
qed

lemma py_round_le_int:
  assumes "x \<le> of_int m"
  shows "py_round x n \<le> of_int m"
proof -
  from assms have "py_round x n \<le> py_round (of_int m) n" by (rule py_round_mono)
  moreover have "py_round (of_int m) n = of_int m"
    by (rule py_round_exact [where k = "m * 10 ^ n"]) simp
  ultimately show ?thesis by simp
qed

section \<open>The score normalizer and the skills scorer\<close>

lemma relevance_component_mono:
  assumes "r1 \<le> r2"
  shows "relevance_component r1 \<le> relevance_component r2"
  using assms unfolding relevance_component_def by (auto simp: not_less)




lemma py_round_tenths: "py_round (of_int k / 10) 1 = of_int k / 10"
  by (rule py_round_exact [where k = k]) simp

lemma skills_low: "2 + of_int n * (2 / 10) = (of_int (20 + 2 * n) / 10 :: rat)"
  by simp

lemma skills_mid: "3 + of_int (n - 5) * (4 / 10) = (of_int (10 + 4 * n) / 10 :: rat)"
  by (simp add: field_simps)

lemma skills_high: "7 + of_int (n - 15) * (3 / 10) = (of_int (25 + 3 * n) / 10 :: rat)"
  by (simp add: field_simps)

lemma score_skills_closed_form:
  "score_skills n sl =
     (if n = 0 then 0
      else if n \<le> 5 then 2 + of_int n * (2 / 10)
      else if n \<le> 15 then 3 + of_int (n - 5) * (4 / 10)
      else if n < 25 then 7 + of_int (n - 15) * (3 / 10)
      else 10)"
  unfolding score_skills_def
  by (simp only: skills_low skills_mid skills_high py_round_tenths)

text \<open>
  Claim C6. For every non-negative skill count \<open>n\<close> the skills score is the piecewise
  linear mapping \<open>0 \<mapsto> 0\<close>; \<open>1..5 \<mapsto> 2.0 + 0.2n\<close>; \<open>6..15 \<mapsto> 3.0 + 0.4(n - 5)\<close>;
  \<open>16..24 \<mapsto> 7.0 + 0.3(n - 15)\<close>, each rounded to 1 decimal (which leaves these values
  unchanged); \<open>n \<ge> 25 \<mapsto> 10.0\<close>, so 25 and 100 skills both score 10.0.
\<close>

theorem C6_skills_piecewise:
  "(0 \<le> n \<longrightarrow>
      score_skills n sl =
        (if n = 0 then 0
         else if 1 \<le> n \<and> n \<le> 5 then py_round (2 + (2 / 10) * of_int n) 1
         else if 6 \<le> n \<and> n \<le> 15 then py_round (3 + (4 / 10) * (of_int n - 5)) 1
         else if 16 \<le> n \<and> n \<le> 24 then py_round (7 + (3 / 10) * (of_int n - 15)) 1
         else 10)
      \<and> score_skills n sl =
        (if n = 0 then 0
         else if 1 \<le> n \<and> n \<le> 5 then 2 + (2 / 10) * of_int n
         else if 6 \<le> n \<and> n \<le> 15 then 3 + (4 / 10) * (of_int n - 5)
         else if 16 \<le> n \<and> n \<le> 24 then 7 + (3 / 10) * (of_int n - 15)
         else 10))
   \<and> score_skills 25 sl = 10 \<and> score_skills 100 sl = 10"
proof (intro conjI impI)
  assume n: "0 \<le> n"
  show "score_skills n sl =
        (if n = 0 then 0
         else if 1 \<le> n \<and> n \<le> 5 then 2 + (2 / 10) * of_int n
         else if 6 \<le> n \<and> n \<le> 15 then 3 + (4 / 10) * (of_int n - 5)
         else if 16 \<le> n \<and> n \<le> 24 then 7 + (3 / 10) * (of_int n - 15)
         else 10)"
    using n by (auto simp: score_skills_closed_form)
  show "score_skills n sl =
        (if n = 0 then 0
         else if 1 \<le> n \<and> n \<le> 5 then py_round (2 + (2 / 10) * of_int n) 1
         else if 6 \<le> n \<and> n \<le> 15 then py_round (3 + (4 / 10) * (of_int n - 5)) 1
         else if 16 \<le> n \<and> n \<le> 24 then py_round (7 + (3 / 10) * (of_int n - 15)) 1
         else 10)"
    using n by (auto simp: score_skills_def algebra_simps)
next
  show "score_skills 25 sl = 10" by (simp add: score_skills_def)
  show "score_skills 100 sl = 10" by (simp add: score_skills_def)
qed

text \<open>Witness for C6 at 7, 20 and 3 skills.\<close>

theorem C6_skills_piecewise_witness:
  "(0::int) \<le> 7 \<and> score_skills 7 [''a''] = 38 / 10 \<and> score_skills 20 [] = 85 / 10
   \<and> score_skills 3 [] = 26 / 10"
  using C6_skills_piecewise [of 7 "[''a'']"] C6_skills_piecewise [of 20 "[]"]
    C6_skills_piecewise [of 3 "[]"]
  by simp

text \<open>
  Claim C2 says that the final score is non-decreasing in both arguments over
  \<open>[0,50] \<times> [0,1]\<close>. It fails across the mode boundary: with heuristic 50, relevance
  \<open>0.0\<close> selects the no-JD branch and scores 98.0, while the larger relevance \<open>0.1\<close>
  selects the with-JD branch and scores 52.43.
\<close>

theorem C2_monotone_counterexample:
  "(0::rat) \<le> 50 \<and> (50::rat) \<le> 50 \<and> (0::rat) \<le> 1 / 10 \<and> (1 / 10 :: rat) \<le> 1
   \<and> fst (normalize_score 50 (Some 0)) = 98
   \<and> fst (normalize_score 50 (Some (1 / 10))) = 5243 / 100
   \<and> \<not> fst (normalize_score 50 (Some 0)) \<le> fst (normalize_score 50 (Some (1 / 10)))"
proof -
  have a: "py_round 98 2 = 98"
    by (rule py_round_exact [where k = 9800]) simp
  have b: "py_round (5243 / 100) 2 = 5243 / 100"
    by (rule py_round_exact [where k = 5243]) simp
  show ?thesis
    using a b
    by (simp add: normalize_score_def relevance_component_def SCALE_WITH_JD_def
        SCALE_WITHOUT_JD_def Let_def)
qed

text \<open>
  Claim C2, amended. For heuristics \<open>h1 \<le> h2\<close> in \<open>[0,50]\<close> and relevances
  \<open>r1 \<le> r2\<close> in \<open>[0,1]\<close> that select the same mode (both positive, or both \<open>0.0\<close>),
  the final score of \<open>(h1, r1)\<close> is at most that of \<open>(h2, r2)\<close>.
\<close>

theorem C2_monotone_within_mode:
  assumes "0 \<le> h1" and "h1 \<le> h2" and "h2 \<le> 50"
    and "0 \<le> r1" and "r1 \<le> r2" and "r2 \<le> 1"
    and "0 < r1 \<or> r2 = 0"
  shows "fst (normalize_score h1 (Some r1)) \<le> fst (normalize_score h2 (Some r2))"
proof (cases "r2 = 0")
  case True
  with assms have r1: "r1 = 0" by simp
  from assms have "max 0 (min 100 (h1 * 2 * SCALE_WITHOUT_JD))
                   \<le> max 0 (min 100 (h2 * 2 * SCALE_WITHOUT_JD))"
    by (simp add: SCALE_WITHOUT_JD_def)
  then show ?thesis
    using True r1 by (simp add: normalize_score_def Let_def py_round_mono)
next
  case False
  with assms have pos: "0 < r1" "0 < r2" by auto
  have "relevance_component r1 \<le> relevance_component r2"
    using assms(5) by (rule relevance_component_mono)
  with assms have "(h1 + relevance_component r1) * SCALE_WITH_JD
                   \<le> (h2 + relevance_component r2) * SCALE_WITH_JD"
    by (simp add: SCALE_WITH_JD_def)
  then have "max 0 (min 100 ((h1 + relevance_component r1) * SCALE_WITH_JD))
                   \<le> max 0 (min 100 ((h2 + relevance_component r2) * SCALE_WITH_JD))"
    by auto
  then show ?thesis
    using pos by (simp add: normalize_score_def Let_def py_round_mono)
qed

text \<open>Witness for the amended C2, once in each mode.\<close>

theorem C2_monotone_within_mode_witness:
  "fst (normalize_score 10 (Some (2 / 10))) \<le> fst (normalize_score 50 (Some (8 / 10)))
   \<and> fst (normalize_score 10 (Some 0)) \<le> fst (normalize_score 50 (Some 0))"
  using C2_monotone_within_mode [of 10 50 "2 / 10" "8 / 10"]
    C2_monotone_within_mode [of 10 50 0 0]
  by simp

section \<open>Ranges of the section scorers\<close>

lemma degree_bonus_nonneg: "0 \<le> degree_bonus txt"
  by (simp add: degree_bonus_def)

lemma score_education_bounds:
  "0 \<le> score_education e f \<and> score_education e f \<le> 10"
  using degree_bonus_nonneg [of "lower (e @ '' '' @ f)"]
  by (simp add: score_education_def Let_def)

lemma duration_points_nonneg: "duration_points m = Some p \<Longrightarrow> 0 \<le> p"
  by (auto simp: duration_points_def split: if_splits)

lemma date_range_points_nonneg: "0 \<le> date_range_points txt"
  by (simp add: date_range_points_def Let_def)

lemma score_experience_bounds:
  "0 \<le> score_experience e f \<and> score_experience e f \<le> 10"
proof (cases "e = [] \<and> \<not> is_in ''experience'' f")
  case True
  then show ?thesis by (simp add: score_experience_def)
next
  case False
  define lt where "lt = lower (e @ '' '' @ f)"
  define base where "base = (case duration_points (total_months lt) of
                       Some p \<Rightarrow> p
                     | None \<Rightarrow> date_range_points lt)"
  define s where "s = base + min (25 / 10) (of_nat (count_in action_verbs lt) * (35 / 100))
          + min 2 (of_nat (length (findall metrics_pattern Eps lt)) * (4 / 10))
          + min 1 (of_nat (count_in seniority lt) * (5 / 10))"
  have base: "0 \<le> base"
    unfolding base_def
    by (auto split: option.splits simp: duration_points_nonneg date_range_points_nonneg)
  have s: "0 \<le> s"
    unfolding s_def using base by (intro add_nonneg_nonneg) simp_all
  have eq: "score_experience e f
      = min 10 (py_round (if any_in top_companies lt then s + 5 / 10 else s) 1)"
    using False unfolding score_experience_def Let_def s_def base_def lt_def by auto
  have "0 \<le> (if any_in top_companies lt then s + 5 / 10 else s)"
    using s by simp
  then have "0 \<le> py_round (if any_in top_companies lt then s + 5 / 10 else s) 1"
    by (rule py_round_nonneg)
  then show ?thesis
    unfolding eq by simp
qed

lemma score_skills_bounds:
  assumes "0 \<le> n"
  shows "0 \<le> score_skills n sl \<and> score_skills n sl \<le> 10"
proof -
  have low: "n \<le> 5 \<Longrightarrow> 0 \<le> py_round (2 + of_int n * (2 / 10)) 1
              \<and> py_round (2 + of_int n * (2 / 10)) 1 \<le> of_int 10"
    using assms by (intro conjI py_round_nonneg py_round_le_int) simp_all
  have mid: "5 < n \<Longrightarrow> n \<le> 15 \<Longrightarrow> 0 \<le> py_round (3 + of_int (n - 5) * (4 / 10)) 1
              \<and> py_round (3 + of_int (n - 5) * (4 / 10)) 1 \<le> of_int 10"
    by (intro conjI py_round_nonneg py_round_le_int) simp_all
  have high: "15 < n \<Longrightarrow> n < 25 \<Longrightarrow> 0 \<le> py_round (7 + of_int (n - 15) * (3 / 10)) 1
              \<and> py_round (7 + of_int (n - 15) * (3 / 10)) 1 \<le> of_int 10"
    by (intro conjI py_round_nonneg py_round_le_int) simp_all
  show ?thesis
    using low mid high by (auto simp: score_skills_def)
qed

lemma projects_points_bounds: "0 \<le> projects_points txt \<and> projects_points txt \<le> 10"
proof -
  define s where "s = 2 + min 3 (of_nat (count_in tech_indicators (lower txt)) * (5 / 10 :: rat))
     + min 2 (of_nat (length (findall impact_pattern Eps (lower txt))) * (5 / 10))
     + min 2 (of_nat (count_in links (lower txt)) * (7 / 10))"
  have "0 \<le> s"
    unfolding s_def by (intro add_nonneg_nonneg) simp_all
  then show ?thesis
    unfolding projects_points_def Let_def s_def [symmetric] by simp
qed

lemma score_projects_bounds:
  "0 \<le> score_projects p f \<and> score_projects p f \<le> 10"
  using projects_points_bounds [of f] projects_points_bounds [of "p @ '' '' @ f"]
  by (simp add: score_projects_def)

lemma score_contact_bounds:
  "0 \<le> score_contact c f \<and> score_contact c f \<le> 10"
  by (simp add: score_contact_def Let_def)

text \<open>
  Claim C8. For every section text (the empty string when the section is absent), every
  full text, every skill count (a count, hence non-negative) and every contact mapping,
  each of the five section scorers returns a value in \<open>[0, 10]\<close>.
\<close>

theorem C8_section_scores_in_range:
  assumes "0 \<le> skill_count"
  shows "(0 \<le> score_education education_text full_text
            \<and> score_education education_text full_text \<le> 10)
       \<and> (0 \<le> score_experience experience_text full_text
            \<and> score_experience experience_text full_text \<le> 10)
       \<and> (0 \<le> score_skills skill_count skills_list
            \<and> score_skills skill_count skills_list \<le> 10)
       \<and> (0 \<le> score_projects projects_text full_text
            \<and> score_projects projects_text full_text \<le> 10)
       \<and> (0 \<le> score_contact c full_text \<and> score_contact c full_text \<le> 10)"
  using score_education_bounds score_experience_bounds score_skills_bounds [OF assms]
    score_projects_bounds score_contact_bounds
  by blast

text \<open>Witness for C8 at 30 skills and small texts.\<close>

theorem C8_section_scores_in_range_witness:
  "(0::int) \<le> 30
   \<and> score_education [] ''education: phd'' \<le> 10
   \<and> score_experience ''led 5 engineers'' [] \<le> 10
   \<and> 0 \<le> score_skills 30 [] \<and> score_skills 30 [] \<le> 10
   \<and> score_projects [] ''hackathon'' \<le> 10
   \<and> score_contact \<lparr>email = Some ''a@b.c'', phone = None\<rparr> ''github'' \<le> 10"
  using C8_section_scores_in_range [of 30 "[]" "''education: phd''" "[]" "[]" "[]"
      "\<lparr>email = Some ''a@b.c'', phone = None\<rparr>"]
    C8_section_scores_in_range [of 30 "[]" "[]" "''led 5 engineers''" "[]" "[]"
      "\<lparr>email = None, phone = None\<rparr>"]
    C8_section_scores_in_range [of 30 "[]" "''hackathon''" "[]" "[]" "[]"
      "\<lparr>email = None, phone = None\<rparr>"]
    C8_section_scores_in_range [of 30 "[]" "''github''" "[]" "[]" "[]"
      "\<lparr>email = Some ''a@b.c'', phone = None\<rparr>"]
  by simp

section \<open>The heuristic aggregator\<close>

lemma compute_heuristics_score:
  "fst (compute_heuristics t ps errs sk c) =
     max 0 (min 50 (heuristic_sum t ps sk c
        - (if errs \<noteq> [] then of_int (min 10 (int (length errs) * 5)) else 0)))"
  by (simp add: compute_heuristics_def heuristic_sum_def Let_def case_prod_beta)

lemma compute_heuristics_feedback:
  "fst (snd (compute_heuristics t ps errs sk c)) =
     fst (snd (compute_heuristics t ps [] sk c))
     @ (if errs \<noteq> [] then [''Parsing issues detected: '' @ join ''; '' (take 3 errs)] else [])"
  by (simp add: compute_heuristics_def Let_def case_prod_beta)

lemma compute_heuristics_penalty:
  "parsingPenalty (snd (snd (compute_heuristics t ps errs sk c))) =
     (if errs \<noteq> [] then - of_int (min 10 (int (length errs) * 5)) else 0)"
  by (simp add: compute_heuristics_def Let_def case_prod_beta)

lemma compute_heuristics_education:
  "education (snd (snd (compute_heuristics t ps errs sk c))) =
     py_round (score_education (section_text ps ''education'') (lower t)) 1"
  by (simp add: compute_heuristics_def section_scores_def Let_def case_prod_beta)

text \<open>
  Claim C4. For every resume text, parsed-section mapping and parsing-error list (of any
  length), the heuristic score returned by \<open>compute_heuristics\<close> lies in \<open>[0, 50]\<close>.
\<close>

theorem C4_heuristic_in_range:
  "0 \<le> fst (compute_heuristics t ps errs sk c) \<and> fst (compute_heuristics t ps errs sk c) \<le> 50"
  by (simp add: compute_heuristics_score)

text \<open>
  Claim C9. For a non-empty parsing-error list of length \<open>n\<close> the aggregator subtracts
  the penalty \<open>min(10, 5n)\<close> once from the sum of the five sub-scores (before the clamp),
  stores its negative under \<open>parsingPenalty\<close>, and appends to the feedback of the
  error-free run one message that joins at most the first 3 error strings.
\<close>

theorem C9_parsing_penalty:
  assumes "errs \<noteq> []"
  shows "fst (compute_heuristics t ps errs sk c) =
           max 0 (min 50 (heuristic_sum t ps sk c - of_int (min 10 (5 * int (length errs)))))
       \<and> fst (compute_heuristics t ps [] sk c) = max 0 (min 50 (heuristic_sum t ps sk c))
       \<and> parsingPenalty (snd (snd (compute_heuristics t ps errs sk c)))
           = - of_int (min 10 (5 * int (length errs)))
       \<and> fst (snd (compute_heuristics t ps errs sk c)) =
           fst (snd (compute_heuristics t ps [] sk c))
           @ [''Parsing issues detected: '' @ join ''; '' (take 3 errs)]"
proof (intro conjI)
  show "fst (compute_heuristics t ps errs sk c) =
           max 0 (min 50 (heuristic_sum t ps sk c - of_int (min 10 (5 * int (length errs)))))"
    using assms by (simp add: compute_heuristics_score mult.commute)
  show "fst (compute_heuristics t ps [] sk c) = max 0 (min 50 (heuristic_sum t ps sk c))"
    by (simp add: compute_heuristics_score)
  show "parsingPenalty (snd (snd (compute_heuristics t ps errs sk c)))
           = - of_int (min 10 (5 * int (length errs)))"
    using assms by (simp add: compute_heuristics_penalty mult.commute)
  show "fst (snd (compute_heuristics t ps errs sk c)) =
           fst (snd (compute_heuristics t ps [] sk c))
           @ [''Parsing issues detected: '' @ join ''; '' (take 3 errs)]"
    using assms compute_heuristics_feedback [of t ps errs sk c] by simp
qed

text \<open>Witness for C9 with 4 and with 3 errors: the penalty is 10 both times.\<close>

theorem C9_parsing_penalty_witness:
  "[''e1'', ''e2'', ''e3'', ''e4''] \<noteq> ([] :: string list)
   \<and> parsingPenalty (snd (snd (compute_heuristics ''cv'' Map.empty [''e1'', ''e2'', ''e3'', ''e4'']
        [] \<lparr>email = None, phone = None\<rparr>))) = - 10
   \<and> parsingPenalty (snd (snd (compute_heuristics ''cv'' Map.empty [''e1'', ''e2'', ''e3'']
        [] \<lparr>email = None, phone = None\<rparr>))) = - 10
   \<and> last (fst (snd (compute_heuristics ''cv'' Map.empty [''e1'', ''e2'', ''e3'', ''e4'']
        [] \<lparr>email = None, phone = None\<rparr>))) = ''Parsing issues detected: e1; e2; e3''"
  using C9_parsing_penalty [of "[''e1'', ''e2'', ''e3'', ''e4'']" "''cv''" Map.empty "[]"
      "\<lparr>email = None, phone = None\<rparr>"]
    C9_parsing_penalty [of "[''e1'', ''e2'', ''e3'']" "''cv''" Map.empty "[]"
      "\<lparr>email = None, phone = None\<rparr>"]
  by simp

lemma phd_mit_no_section:
  "score_education [] (lower ''PhD Computer Science from MIT'') = 0"
  by code_simp

lemma phd_mit_with_section:
  "score_education ''PhD Computer Science from MIT'' (lower ''PhD Computer Science from MIT'')
     = 95 / 10"
  by code_simp

lemma py_round_zero: "py_round 0 n = 0"
  by (rule py_round_exact [where k = 0]) simp

text \<open>
  Claim C1 says that the resume text "PhD Computer Science from MIT" with no parsed
  education section has education sub-score 10.0. The scorer returns 0.0 there: there
  is no section and the text does not contain "education".
\<close>

theorem C1_phd_mit_counterexample:
  "education (snd (snd (compute_heuristics ''PhD Computer Science from MIT'' Map.empty [] []
      \<lparr>email = None, phone = None\<rparr>))) = 0
   \<and> education (snd (snd (compute_heuristics ''PhD Computer Science from MIT'' Map.empty [] []
      \<lparr>email = None, phone = None\<rparr>))) \<noteq> 10"
  by (simp add: compute_heuristics_education section_text_def phd_mit_no_section py_round_zero)

text \<open>
  Claim C1, amended. For the resume text "PhD Computer Science from MIT" with no parsed
  education section (key missing, or its value \<^verbatim>\<open>None\<close>) the education sub-score is 0.0.
  With the same text as the parsed education section it is \<open>2 + 5 + 1.5 + 1.0 = 9.5\<close>,
  below the clamp at 10.
\<close>

theorem C1_phd_mit_education_score:
  "education (snd (snd (compute_heuristics ''PhD Computer Science from MIT''
       (ps(''education'' := None)) errs sk c))) = 0
   \<and> education (snd (snd (compute_heuristics ''PhD Computer Science from MIT''
       (ps(''education'' \<mapsto> None)) errs sk c))) = 0
   \<and> education (snd (snd (compute_heuristics ''PhD Computer Science from MIT''
       (ps(''education'' \<mapsto> Some ''PhD Computer Science from MIT'')) errs sk c)))
      = 2 + 5 + 15 / 10 + 1
   \<and> (2 + 5 + 15 / 10 + 1 :: rat) = 95 / 10"
proof -
  have "py_round (95 / 10) 1 = 95 / 10"
    by (rule py_round_exact [where k = 95]) simp
  then show ?thesis
    by (simp add: compute_heuristics_education section_text_def phd_mit_no_section
        phd_mit_with_section py_round_zero)
qed

section \<open>Text cleaning is idempotent\<close>

lemma is_space_blank: "is_space CHR '' ''"
  by (simp add: is_space_def)

lemma az_not_space: "is_az c \<Longrightarrow> \<not> is_space c"
  by (auto simp: is_az_def is_space_def Let_def)

lemma lower_chr_az: "is_az c \<Longrightarrow> lower_chr c = c"
  by (auto simp: is_az_def lower_chr_def Let_def)

lemma lower_chr_blank: "lower_chr CHR '' '' = CHR '' ''"
  by (simp add: lower_chr_def)

lemma collapse_from_True: "collapse_from True s = collapse_from False (dropWhile is_space s)"
  by (induction s) simp_all

lemma split_from_dropWhile: "split_from [] s = split_from [] (dropWhile is_space s)"
  by (induction s) simp_all

lemma lstrip_collapse_from:
  "lstrip (collapse_from b s) = collapse_from False (lstrip s)"
  by (induction s arbitrary: b) (simp_all add: lstrip_def is_space_blank)

lemma rstrip_Nil_iff: "rstrip xs = [] \<longleftrightarrow> (\<forall>c\<in>set xs. is_space c)"
  by (auto simp: rstrip_def dropWhile_eq_Nil_conv)

lemma rstrip_append_spaces: "\<forall>c\<in>set ys. is_space c \<Longrightarrow> rstrip (xs @ ys) = rstrip xs"
  by (simp add: rstrip_def dropWhile_append)

lemma rstrip_append_keep: "rstrip ys \<noteq> [] \<Longrightarrow> rstrip (xs @ ys) = xs @ rstrip ys"
proof -
  assume "rstrip ys \<noteq> []"
  then obtain c where "c \<in> set (rev ys)" "\<not> is_space c"
    by (auto simp: rstrip_Nil_iff)
  then have "dropWhile is_space (rev ys @ rev xs) = dropWhile is_space (rev ys) @ rev xs"
    by (rule dropWhile_append1)
  then show ?thesis by (simp add: rstrip_def)
qed

lemma rstrip_no_space: "\<forall>c\<in>set xs. \<not> is_space c \<Longrightarrow> rstrip xs = xs"
proof (cases xs rule: rev_cases)
  case Nil
  then show ?thesis by (simp add: rstrip_def)
next
  case (snoc ys y)
  assume "\<forall>c\<in>set xs. \<not> is_space c"
  with snoc show ?thesis by (simp add: rstrip_def)
qed

lemma join_Cons: "ws \<noteq> [] \<Longrightarrow> join sep (w # ws) = w @ sep @ join sep ws"
  by (cases ws) simp_all

lemma join_eq_Nil: "\<forall>w\<in>set ws. w \<noteq> [] \<Longrightarrow> join sep ws = [] \<longleftrightarrow> ws = []"
  by (induction sep ws rule: join.induct) simp_all

lemma split_from_words:
  assumes "\<forall>c\<in>set cur. \<not> is_space c \<and> Q c" and "\<forall>c\<in>set s. is_space c \<or> Q c"
  shows "\<forall>w\<in>set (split_from cur s). w \<noteq> [] \<and> (\<forall>c\<in>set w. \<not> is_space c \<and> Q c)"
  using assms
proof (induction s arbitrary: cur)
  case Nil
  then show ?case by simp
next
  case (Cons c cs)
  show ?case
  proof (cases "is_space c")
    case True
    have "\<forall>w\<in>set (split_from [] cs). w \<noteq> [] \<and> (\<forall>c\<in>set w. \<not> is_space c \<and> Q c)"
      using Cons.prems by (intro Cons.IH) simp_all
    with True Cons.prems show ?thesis by simp
  next
    case False
    have "\<forall>w\<in>set (split_from (c # cur) cs). w \<noteq> [] \<and> (\<forall>c\<in>set w. \<not> is_space c \<and> Q c)"
      using Cons.prems False by (intro Cons.IH) auto
    with False show ?thesis by simp
  qed
qed

lemma rstrip_collapse_split:
  assumes "\<forall>c\<in>set cur. \<not> is_space c" and "cur \<noteq> [] \<or> u = [] \<or> \<not> is_space (hd u)"
  shows "rstrip (rev cur @ collapse_from False u) = join '' '' (split_from cur u)"
  using assms
proof (induction "length u" arbitrary: u cur rule: less_induct)
  case less
  show ?case
  proof (cases u)
    case Nil
    with less.prems show ?thesis by (simp add: rstrip_no_space)
  next
    case (Cons c cs)
    show ?thesis
    proof (cases "is_space c")
      case False
      have "rstrip (rev (c # cur) @ collapse_from False cs) = join '' '' (split_from (c # cur) cs)"
        using less.prems False Cons by (intro less.hyps) simp_all
      with False Cons show ?thesis by simp
    next
      case True
      with less.prems Cons have cur: "cur \<noteq> []" by auto
      define v where "v = dropWhile is_space cs"
      have v_head: "v = [] \<or> \<not> is_space (hd v)"
        unfolding v_def by (metis hd_dropWhile)
      have "length v \<le> length cs"
        unfolding v_def by (rule length_dropWhile_le)
      then have "length v < length u" using Cons by simp
      then have ih: "rstrip (rev [] @ collapse_from False v) = join '' '' (split_from [] v)"
        using v_head by (intro less.hyps) simp_all
      have words: "\<forall>w\<in>set (split_from [] v). w \<noteq> []"
        using split_from_words [of "[]" "\<lambda>c. True" v] by simp
      have lhs: "rev cur @ collapse_from False u
                 = (rev cur @ '' '') @ collapse_from False v"
        using True Cons by (simp add: collapse_from_True v_def)
      have rhs: "split_from cur u = rev cur # split_from [] v"
        using True Cons cur split_from_dropWhile [of cs] by (simp add: v_def)
      show ?thesis
      proof (cases "split_from [] v = []")
        case True
        with ih have "rstrip (collapse_from False v) = []" by simp
        then have "\<forall>c\<in>set ('' '' @ collapse_from False v). is_space c"
          by (simp add: rstrip_Nil_iff is_space_blank)
        then have "rstrip (rev cur @ ('' '' @ collapse_from False v)) = rstrip (rev cur)"
          by (rule rstrip_append_spaces)
        with True lhs rhs less.prems(1) show ?thesis
          by (simp add: rstrip_no_space)
      next
        case False
        with words have "join '' '' (split_from [] v) \<noteq> []"
          by (simp add: join_eq_Nil)
        with ih have "rstrip (collapse_from False v) \<noteq> []" by simp
        then have "rstrip ((rev cur @ '' '') @ collapse_from False v)
                   = (rev cur @ '' '') @ rstrip (collapse_from False v)"
          by (rule rstrip_append_keep)
        with False lhs rhs ih show ?thesis
          by (simp add: join_Cons)
      qed
    qed
  qed
qed

lemma strip_collapse_ws: "strip (collapse_ws s) = join '' '' (split s)"
proof -
  have "lstrip s = [] \<or> \<not> is_space (hd (lstrip s))"
    unfolding lstrip_def by (metis hd_dropWhile)
  then have "rstrip (rev [] @ collapse_from False (lstrip s))
             = join '' '' (split_from [] (lstrip s))"
    by (intro rstrip_collapse_split) simp_all
  moreover have "strip (collapse_ws s) = rstrip (collapse_from False (lstrip s))"
    by (simp add: strip_def collapse_ws_def lstrip_collapse_from)
  moreover have "split s = split_from [] (lstrip s)"
    using split_from_dropWhile [of s] by (simp add: split_def lstrip_def)
  ultimately show ?thesis by simp
qed

lemma split_from_append:
  "\<forall>c\<in>set w. \<not> is_space c \<Longrightarrow> split_from cur (w @ rest) = split_from (rev w @ cur) rest"
  by (induction w arbitrary: cur) simp_all

lemma split_join:
  "\<forall>w\<in>set ws. w \<noteq> [] \<and> (\<forall>c\<in>set w. \<not> is_space c) \<Longrightarrow> split (join '' '' ws) = ws"
proof (induction "'' ''" ws rule: join.induct)
  case 1
  then show ?case by (simp add: split_def)
next
  case (2 x)
  then have "split_from [] (x @ []) = split_from (rev x @ []) []"
    by (intro split_from_append) simp
  with 2 show ?case by (simp add: split_def)
next
  case (3 x y ys)
  then have "split_from [] (x @ ('' '' @ join '' '' (y # ys)))
             = split_from (rev x @ []) ('' '' @ join '' '' (y # ys))"
    by (intro split_from_append) simp
  moreover have "split (join '' '' (y # ys)) = y # ys"
    using 3 by simp
  ultimately show ?case
    using 3 by (simp add: split_def is_space_blank)
qed

lemma lower_join:
  "\<forall>w\<in>set ws. \<forall>c\<in>set w. is_az c \<Longrightarrow> lower (join '' '' ws) = join '' '' ws"
proof (induction "'' ''" ws rule: join.induct)
  case 1
  then show ?case by (simp add: lower_def)
next
  case (2 x)
  then show ?case by (simp add: lower_def lower_chr_az map_idI)
next
  case (3 x y ys)
  then show ?case by (simp add: lower_def lower_chr_az lower_chr_blank map_idI)
qed

lemma keep_letters_join:
  "\<forall>w\<in>set ws. \<forall>c\<in>set w. is_az c \<Longrightarrow> keep_letters (join '' '' ws) = join '' '' ws"
proof (induction "'' ''" ws rule: join.induct)
  case 1
  then show ?case by (simp add: keep_letters_def)
next
  case (2 x)
  then show ?case by (simp add: keep_letters_def map_idI)
next
  case (3 x y ys)
  then show ?case by (simp add: keep_letters_def is_space_blank map_idI)
qed

lemma split_keep_letters_words:
  "\<forall>w\<in>set (split (keep_letters s)). w \<noteq> [] \<and> (\<forall>c\<in>set w. \<not> is_space c \<and> is_az c)"
  unfolding split_def
  by (rule split_from_words) (auto simp: keep_letters_def is_space_blank)

lemma normalise_join:
  assumes "\<forall>w\<in>set ws. w \<noteq> [] \<and> (\<forall>c\<in>set w. \<not> is_space c \<and> is_az c)"
  shows "strip (collapse_ws (keep_letters (lower (join '' '' ws)))) = join '' '' ws"
proof -
  have az: "\<forall>w\<in>set ws. \<forall>c\<in>set w. is_az c" using assms by blast
  have sp: "\<forall>w\<in>set ws. w \<noteq> [] \<and> (\<forall>c\<in>set w. \<not> is_space c)" using assms by blast
  show ?thesis
    by (simp add: lower_join [OF az] keep_letters_join [OF az] strip_collapse_ws
        split_join [OF sp])
qed

text \<open>
  Claim C10. The text-cleaning function is idempotent: for every string \<open>t\<close> and every
  stopword set \<open>S\<close> (or none), cleaning the cleaned text again returns it unchanged.
\<close>

theorem C10_clean_text_idempotent:
  "clean_text (clean_text t S) S = clean_text t S"
proof (cases "t = []")
  case True
  then show ?thesis by (simp add: clean_text_def)
next
  case False
  define W where "W = split (keep_letters (lower t))"
  have W: "\<forall>w\<in>set W. w \<noteq> [] \<and> (\<forall>c\<in>set w. \<not> is_space c \<and> is_az c)"
    unfolding W_def by (rule split_keep_letters_words)
  have t3: "strip (collapse_ws (keep_letters (lower t))) = join '' '' W"
    by (simp add: strip_collapse_ws W_def)
  show ?thesis
  proof (cases "has_stop_words S")
    case no_stop: False
    then have first: "clean_text t S = join '' '' W"
      using False by (simp add: clean_text_def Let_def t3)
    show ?thesis
    proof (cases "join '' '' W = []")
      case True
      with first show ?thesis by (simp add: clean_text_def)
    next
      case False
      with no_stop show ?thesis
        unfolding first by (simp add: clean_text_def Let_def normalise_join [OF W])
    qed
  next
    case stop: True
    define V where "V = filter (\<lambda>word. word \<notin> the S) W"
    have V: "\<forall>w\<in>set V. w \<noteq> [] \<and> (\<forall>c\<in>set w. \<not> is_space c \<and> is_az c)"
      using W by (auto simp: V_def)
    have "split (join '' '' W) = W"
      using W by (intro split_join) blast
    then have first: "clean_text t S = join '' '' V"
      using False stop by (simp add: clean_text_def Let_def t3 V_def)
    have again: "filter (\<lambda>word. word \<notin> the S) V = V"
      by (simp add: V_def)
    have split_V: "split (join '' '' V) = V"
      using V by (intro split_join) blast
    show ?thesis
    proof (cases "join '' '' V = []")
      case True
      with first show ?thesis by (simp add: clean_text_def)
    next
      case False
      with stop show ?thesis
        unfolding first
        by (simp add: clean_text_def Let_def normalise_join [OF V] split_V again)
    qed
  qed
qed

text \<open>An instance of C10 with one stopword.\<close>

theorem C10_clean_text_idempotent_witness:
  "clean_text ''Hello,  World!'' (Some {''hello''}) = ''world''
   \<and> clean_text ''world'' (Some {''hello''}) = ''world''"
proof -
  have first: "clean_text ''Hello,  World!'' (Some {''hello''}) = ''world''"
    by code_simp
  show ?thesis
    using C10_clean_text_idempotent [of "''Hello,  World!''" "Some {''hello''}"] first
    by simp
qed

end
